theory Spec2Isabelle
  imports Complex_Main
begin

section \<open>JavaScript values\<close>

text \<open>
  The service is one Express handler, \<^verbatim>\<open>POST /create_preference\<close>, present twice in the
  repository: in \<^verbatim>\<open>src/index.js\<close> and in \<^verbatim>\<open>src/unnamed/part_000\<close>. The two handlers
  are the same statement for statement; the files differ in how \<^verbatim>\<open>BASE_URL\<close> is computed.

  The handler works on untyped data: the parsed request body, the value the provider
  client resolves to, and whatever it throws. These are modelled by one datatype of
  JavaScript values. A Number is an IEEE double: a finite one is represented by its exact
  rational value, and the three special values are constructors of their own (negative
  zero is not told apart from zero: both are falsy and both are \<open>\<le> 0\<close>). A string is a
  list of characters, each standing for a code unit below 256. An object is the list of
  its own properties in insertion order.
\<close>

datatype jsnum = Fin rat | NaN | PosInf | NegInf

datatype jsval =
    JUndefined
  | JNull
  | JBool bool
  | JNum jsnum
  | JStr string
  | JArr "jsval list"
  | JObj "(string \<times> jsval) list"

text \<open>ToBoolean, as applied by \<^verbatim>\<open>!x\<close>, \<^verbatim>\<open>x && y\<close>, \<^verbatim>\<open>x || y\<close> and \<^verbatim>\<open>if (x)\<close>.\<close>

fun truthy :: "jsval \<Rightarrow> bool" where
  "truthy JUndefined = False"
| "truthy JNull = False"
| "truthy (JBool b) = b"
| "truthy (JNum (Fin r)) = (r \<noteq> 0)"
| "truthy (JNum NaN) = False"
| "truthy (JNum PosInf) = True"
| "truthy (JNum NegInf) = True"
| "truthy (JStr s) = (s \<noteq> [])"
| "truthy (JArr xs) = True"
| "truthy (JObj kvs) = True"

text \<open>The \<^verbatim>\<open>typeof\<close> operator.\<close>

fun typeof :: "jsval \<Rightarrow> string" where
  "typeof JUndefined = ''undefined''"
| "typeof JNull = ''object''"
| "typeof (JBool b) = ''boolean''"
| "typeof (JNum n) = ''number''"
| "typeof (JStr s) = ''string''"
| "typeof (JArr xs) = ''object''"
| "typeof (JObj kvs) = ''object''"

text \<open>\<^verbatim>\<open>Array.isArray\<close>.\<close>

fun isArray :: "jsval \<Rightarrow> bool" where
  "isArray (JArr xs) = True"
| "isArray v = False"

text \<open>
  A \<^verbatim>\<open>TypeError\<close> raised by the engine. The handler reads only \<^verbatim>\<open>message\<close>,
  \<^verbatim>\<open>status\<close>, \<^verbatim>\<open>cause\<close> and \<^verbatim>\<open>response\<close> of what it catches, and an engine error has
  only the first of these.
\<close>

definition type_error :: "string \<Rightarrow> jsval" where
  "type_error msg = JObj [(''message'', JStr msg)]"

text \<open>
  Property read \<^verbatim>\<open>v.k\<close>: it throws on \<^verbatim>\<open>undefined\<close> and \<^verbatim>\<open>null\<close>, looks an object's own
  property up, and gives \<^verbatim>\<open>undefined\<close> on every other value. The last case is right for
  the property names the handler reads (\<^verbatim>\<open>items\<close>, \<^verbatim>\<open>title\<close>, \<^verbatim>\<open>quantity\<close>,
  \<^verbatim>\<open>unit_price\<close>, \<^verbatim>\<open>init_point\<close>, \<^verbatim>\<open>message\<close>, \<^verbatim>\<open>status\<close>, \<^verbatim>\<open>cause\<close>,
  \<^verbatim>\<open>response\<close>, \<^verbatim>\<open>data\<close>): none of them is defined on the prototype of an array, a
  string, a number or a boolean. \<open>Inl\<close> carries the thrown value.
\<close>

definition quoted :: "string \<Rightarrow> string" where
  "quoted k = [CHR 0x27] @ k @ [CHR 0x27]"

fun get :: "jsval \<Rightarrow> string \<Rightarrow> jsval + jsval" where
  "get JUndefined k =
     Inl (type_error (''Cannot read properties of undefined (reading '' @ quoted k @ '')''))"
| "get JNull k =
     Inl (type_error (''Cannot read properties of null (reading '' @ quoted k @ '')''))"
| "get (JObj kvs) k = Inr (case map_of kvs k of Some v \<Rightarrow> v | None \<Rightarrow> JUndefined)"
| "get v k = Inr JUndefined"

text \<open>
  \<^verbatim>\<open>String.prototype.trim\<close> removes white space and line terminators from both ends. Of
  these, the code units below 256 are tab, line feed, vertical tab, form feed, carriage
  return, space and no-break space.
\<close>

definition is_space :: "char \<Rightarrow> bool" where
  "is_space c \<longleftrightarrow>
     c \<in> set [CHR 0x09, CHR 0x0A, CHR 0x0B, CHR 0x0C, CHR 0x0D, CHR 0x20, CHR 0xA0]"

definition trim :: "string \<Rightarrow> string" where
  "trim s = rev (dropWhile is_space (rev (dropWhile is_space s)))"

text \<open>\<^verbatim>\<open>x <= 0\<close> on a Number; every comparison with NaN is false.\<close>

fun num_le_zero :: "jsnum \<Rightarrow> bool" where
  "num_le_zero (Fin r) = (r \<le> 0)"
| "num_le_zero NaN = False"
| "num_le_zero PosInf = False"
| "num_le_zero NegInf = True"

section \<open>Rounding a price\<close>

text \<open>
  The handler computes \<^verbatim>\<open>parseFloat(item.unit_price.toFixed(2))\<close>. The string between
  the two calls is modelled by what it denotes. \<^verbatim>\<open>toFixed(2)\<close> (ECMA-262, 21.1.3.3)
  returns \<^verbatim>\<open>ToString(x)\<close> when \<open>x\<close> is not finite or its magnitude is at least
  \<open>10\<^sup>2\<^sup>1\<close>; otherwise it takes the integer \<open>n\<close> for which \<open>n / 100\<close> is nearest to the
  magnitude of \<open>x\<close> (the larger one of two) and prints \<open>n / 100\<close> with two fraction digits
  and the sign of \<open>x\<close>.
\<close>

datatype numstr =
    Fixed2 int      \<comment> \<open>the numeral of \<open>n / 100\<close> with two fraction digits\<close>
  | OfNumber jsnum  \<comment> \<open>\<^verbatim>\<open>ToString(x)\<close>\<close>

fun toFixed2 :: "jsnum \<Rightarrow> numstr" where
  "toFixed2 (Fin r) =
     (if 10 ^ 21 \<le> \<bar>r\<bar> then OfNumber (Fin r)
      else if r < 0 then Fixed2 (- \<lfloor>- r * 100 + 1 / 2\<rfloor>)
      else Fixed2 \<lfloor>r * 100 + 1 / 2\<rfloor>)"
| "toFixed2 NaN = OfNumber NaN"
| "toFixed2 PosInf = OfNumber PosInf"
| "toFixed2 NegInf = OfNumber NegInf"

text \<open>
  \<^verbatim>\<open>parseFloat\<close> of such a string. A decimal numeral is converted to the nearest double;
  this rounding is the parameter \<open>d64\<close>, about which nothing is assumed. \<^verbatim>\<open>ToString(x)\<close>
  is read back as \<open>x\<close>.
\<close>

fun parseFloat :: "(rat \<Rightarrow> rat) \<Rightarrow> numstr \<Rightarrow> jsnum" where
  "parseFloat d64 (Fixed2 n) = Fin (d64 (of_int n / 100))"
| "parseFloat d64 (OfNumber x) = x"

text \<open>
  The method call \<^verbatim>\<open>v.toFixed(2)\<close>: only a Number has the method.
\<close>

fun call_toFixed2 :: "jsval \<Rightarrow> jsval + numstr" where
  "call_toFixed2 (JNum x) = Inr (toFixed2 x)"
| "call_toFixed2 JUndefined =
     Inl (type_error (''Cannot read properties of undefined (reading '' @ quoted ''toFixed'' @ '')''))"
| "call_toFixed2 JNull =
     Inl (type_error (''Cannot read properties of null (reading '' @ quoted ''toFixed'' @ '')''))"
| "call_toFixed2 v = Inl (type_error ''item.unit_price.toFixed is not a function'')"

section \<open>Start-up\<close>

text \<open>
  \<^verbatim>\<open>process.env.X || d\<close>: an environment variable is a string or is undefined, and the
  empty string is falsy.
\<close>

fun env_or :: "string option \<Rightarrow> string \<Rightarrow> string" where
  "env_or None d = d"
| "env_or (Some s) d = (if s = [] then d else s)"

text \<open>\<^verbatim>\<open>s.replace(/\/$/, "")\<close>: one slash at the end of the string is removed.\<close>

definition replace_trailing_slash :: "string \<Rightarrow> string" where
  "replace_trailing_slash s = (if s \<noteq> [] \<and> last s = CHR ''/'' then butlast s else s)"

text \<open>
  \<^verbatim>\<open>BASE_URL\<close> of \<^verbatim>\<open>src/index.js\<close> (line 15) and of \<^verbatim>\<open>src/unnamed/part_000\<close>
  (line 12), for the environment \<^verbatim>\<open>process.env\<close>.
\<close>

definition BASE_URL_index :: "(string \<Rightarrow> string option) \<Rightarrow> string" where
  "BASE_URL_index env = env_or (env ''NEXT_PUBLIC_BASE_URL'') ''http://localhost:3000''"

definition BASE_URL_part_000 :: "(string \<Rightarrow> string option) \<Rightarrow> string" where
  "BASE_URL_part_000 env =
     replace_trailing_slash (env_or (env ''NEXT_PUBLIC_BASE_URL'') ''http://localhost:3000'')"

text \<open>
  What the module does when it is loaded, in both files, as the list of its effects in
  order (console output left out): \<^verbatim>\<open>if (!MP_ACCESS_TOKEN) process.exit(1)\<close>, then the
  client is made and \<^verbatim>\<open>app.listen(PORT)\<close> is called. \<^verbatim>\<open>process.exit\<close> ends the
  process, so nothing follows it.
\<close>

datatype effect = ProcessExit nat | NewClient string string | Listen nat

definition startup :: "(string \<Rightarrow> string option) \<Rightarrow> effect list" where
  "startup env =
     (case env ''MP_ACCESS_TOKEN'' of
        None \<Rightarrow> [ProcessExit 1]
      | Some token \<Rightarrow>
          if token = [] then [ProcessExit 1]
          else [NewClient token ''es-MX'', Listen 5000])"

section \<open>The handler\<close>

record response =
  status :: nat
  json :: jsval

definition msg_items :: string where
  "msg_items = ''Items inv'' @ [CHR 0xE1] @ ''lidos: se requiere un array de items no vac''
     @ [CHR 0xED] @ ''o.''"

definition msg_item :: string where
  "msg_item = ''Estructura de item inv'' @ [CHR 0xE1] @ ''lida. Cada item debe tener ''
     @ quoted ''title'' @ '' (string no vac'' @ [CHR 0xED] @ ''o), '' @ quoted ''quantity''
     @ '' (number > 0) y '' @ quoted ''unit_price'' @ '' (number > 0). Item defectuoso: ''"

definition msg_unknown :: string where
  "msg_unknown = ''Error desconocido al procesar la solicitud.''"

text \<open>
  \<^verbatim>\<open>const { items } = req.body\<close> (and \<^verbatim>\<open>{ items, pedidoId, datosEnvio }\<close> in the second
  file, where the two other names are never used): destructuring throws on
  \<^verbatim>\<open>undefined\<close> and \<^verbatim>\<open>null\<close>.
\<close>

fun destructure_items :: "jsval \<Rightarrow> jsval + jsval" where
  "destructure_items JUndefined =
     Inl (type_error (''Cannot destructure property '' @ quoted ''items'' @ '' of ''
       @ quoted ''req.body'' @ '' as it is undefined.''))"
| "destructure_items JNull =
     Inl (type_error (''Cannot destructure property '' @ quoted ''items'' @ '' of ''
       @ quoted ''req.body'' @ '' as it is null.''))"
| "destructure_items v = get v ''items''"

text \<open>
  The condition of the \<^verbatim>\<open>if\<close> in the validation loop, for one item. \<^verbatim>\<open>||\<close> evaluates
  from left to right and stops at the first true operand, so \<^verbatim>\<open>trim\<close> is called on a
  string only and \<^verbatim>\<open><=\<close> compares a Number only: on any other value the disjunct before
  is true already, and what \<open>title_blank\<close> and \<open>le_zero\<close> say of it does not matter.
\<close>

fun title_blank :: "jsval \<Rightarrow> bool" where
  "title_blank (JStr s) = (trim s = [])"
| "title_blank v = True"

fun le_zero :: "jsval \<Rightarrow> bool" where
  "le_zero (JNum x) = num_le_zero x"
| "le_zero v = True"

definition item_invalid :: "jsval \<Rightarrow> jsval + bool" where
  "item_invalid item =
     (case get item ''title'' of Inl e \<Rightarrow> Inl e | Inr t \<Rightarrow>
        if \<not> truthy t \<or> typeof t \<noteq> ''string'' \<or> title_blank t then Inr True
        else (case get item ''quantity'' of Inl e \<Rightarrow> Inl e | Inr q \<Rightarrow>
          if \<not> truthy q \<or> typeof q \<noteq> ''number'' \<or> le_zero q then Inr True
          else (case get item ''unit_price'' of Inl e \<Rightarrow> Inl e | Inr p \<Rightarrow>
            Inr (\<not> truthy p \<or> typeof p \<noteq> ''number'' \<or> le_zero p))))"

text \<open>
  The loop \<^verbatim>\<open>for (const item of items)\<close>: it ends with the first item that throws or
  is invalid (\<open>Some item\<close>), or runs through (\<open>None\<close>).
\<close>

fun validate_items :: "jsval list \<Rightarrow> jsval + jsval option" where
  "validate_items [] = Inr None"
| "validate_items (item # rest) =
     (case item_invalid item of
        Inl e \<Rightarrow> Inl e
      | Inr True \<Rightarrow> Inr (Some item)
      | Inr False \<Rightarrow> validate_items rest)"

text \<open>The function given to \<^verbatim>\<open>items.map\<close>.\<close>

definition build_item :: "(rat \<Rightarrow> rat) \<Rightarrow> jsval \<Rightarrow> jsval + jsval" where
  "build_item d64 item =
     (case get item ''title'' of Inl e \<Rightarrow> Inl e | Inr t \<Rightarrow>
       (case get item ''quantity'' of Inl e \<Rightarrow> Inl e | Inr q \<Rightarrow>
         (case get item ''unit_price'' of Inl e \<Rightarrow> Inl e | Inr p \<Rightarrow>
           (case call_toFixed2 p of Inl e \<Rightarrow> Inl e | Inr s \<Rightarrow>
              Inr (JObj [(''title'', t), (''quantity'', q),
                         (''unit_price'', JNum (parseFloat d64 s))])))))"

text \<open>\<^verbatim>\<open>Array.prototype.map\<close> with a callback that may throw.\<close>

fun map_throwing :: "('a \<Rightarrow> 'e + 'b) \<Rightarrow> 'a list \<Rightarrow> 'e + 'b list" where
  "map_throwing f [] = Inr []"
| "map_throwing f (x # xs) =
     (case f x of
        Inl e \<Rightarrow> Inl e
      | Inr y \<Rightarrow> (case map_throwing f xs of Inl e \<Rightarrow> Inl e | Inr ys \<Rightarrow> Inr (y # ys)))"

definition back_urls :: "string \<Rightarrow> jsval" where
  "back_urls BASE_URL =
     JObj [(''success'', JStr (BASE_URL @ ''/success'')),
           (''failure'', JStr (BASE_URL @ ''/failure'')),
           (''pending'', JStr (BASE_URL @ ''/pending''))]"

text \<open>The object \<^verbatim>\<open>preferenceData\<close>, for the elements of \<^verbatim>\<open>items\<close>.\<close>

definition preferenceData :: "(rat \<Rightarrow> rat) \<Rightarrow> string \<Rightarrow> jsval list \<Rightarrow> jsval + jsval" where
  "preferenceData d64 BASE_URL items =
     (case map_throwing (build_item d64) items of
        Inl e \<Rightarrow> Inl e
      | Inr out \<Rightarrow> Inr (JObj [(''items'', JArr out), (''back_urls'', back_urls BASE_URL)]))"

text \<open>
  The outcome of one request: the response sent (\<open>Inr\<close>) or the exception that leaves
  the handler (\<open>Inl\<close>), and the arguments of the calls of
  \<^verbatim>\<open>preferencesService.create\<close>, in order.
\<close>

type_synonym outcome = "(jsval + response) \<times> jsval list"

fun elements :: "jsval \<Rightarrow> jsval list" where
  "elements (JArr xs) = xs"
| "elements v = []"

text \<open>
  The \<^verbatim>\<open>try\<close> block. \<open>stringify\<close> is \<^verbatim>\<open>JSON.stringify\<close> as the template literal uses
  it, and \<open>create\<close> is \<^verbatim>\<open>preferencesService.create\<close> awaited: the value it resolves to
  (\<open>Inr\<close>) or the value it rejects with (\<open>Inl\<close>). Here \<open>Inl\<close> in the outcome is the
  exception that reaches \<^verbatim>\<open>catch\<close>.
\<close>

definition try_block ::
  "(rat \<Rightarrow> rat) \<Rightarrow> (jsval \<Rightarrow> string) \<Rightarrow> string \<Rightarrow> (jsval \<Rightarrow> jsval + jsval) \<Rightarrow> jsval \<Rightarrow> outcome"
where
  "try_block d64 stringify BASE_URL create req_body =
     (case destructure_items req_body of
        Inl e \<Rightarrow> (Inl e, [])
      | Inr items \<Rightarrow>
          if \<not> truthy items \<or> \<not> isArray items \<or> length (elements items) = 0
          then (Inr \<lparr>status = 400, json = JObj [(''message'', JStr msg_items)]\<rparr>, [])
          else
            (case validate_items (elements items) of
               Inl e \<Rightarrow> (Inl e, [])
             | Inr (Some item) \<Rightarrow>
                 (Inr \<lparr>status = 400,
                       json = JObj [(''message'', JStr (msg_item @ stringify item))]\<rparr>, [])
             | Inr None \<Rightarrow>
                 (case preferenceData d64 BASE_URL (elements items) of
                    Inl e \<Rightarrow> (Inl e, [])
                  | Inr pref \<Rightarrow>
                      (case create (JObj [(''body'', pref)]) of
                         Inl e \<Rightarrow> (Inl e, [JObj [(''body'', pref)]])
                       | Inr resp \<Rightarrow>
                           (case get resp ''init_point'' of
                              Inl e \<Rightarrow> (Inl e, [JObj [(''body'', pref)]])
                            | Inr init_point \<Rightarrow>
                                (Inr \<lparr>status = 200,
                                      json = JObj [(''init_point'', init_point)]\<rparr>,
                                 [JObj [(''body'', pref)]]))))))"

text \<open>
  The \<^verbatim>\<open>catch\<close> block, for the caught value. \<^verbatim>\<open>errorMessage\<close> starts as the generic
  text and \<^verbatim>\<open>errorDetails\<close> as the empty object; each assignment to a property of
  \<^verbatim>\<open>errorDetails\<close> adds a new key at the end.
\<close>

definition respond500 :: "jsval \<Rightarrow> (string \<times> jsval) list \<Rightarrow> response" where
  "respond500 errorMessage errorDetails =
     \<lparr>status = 500,
      json = JObj [(''message'', errorMessage), (''details'', JObj errorDetails)]\<rparr>"

definition catch_block :: "jsval \<Rightarrow> jsval + response" where
  "catch_block error =
     (if truthy error \<and> typeof error = ''object'' then
        (case get error ''message'' of Inl e \<Rightarrow> Inl e | Inr m \<Rightarrow>
          (case get error ''status'' of Inl e \<Rightarrow> Inl e | Inr st \<Rightarrow>
            (case get error ''cause'' of Inl e \<Rightarrow> Inl e | Inr c \<Rightarrow>
              (case get error ''response'' of Inl e \<Rightarrow> Inl e | Inr r \<Rightarrow>
                 let errorMessage = (if truthy m then m else JStr msg_unknown);
                     errorDetails = (if truthy st then [(''status'', st)] else [])
                                  @ (if truthy c then [(''cause'', c)] else [])
                 in
                   if truthy r then
                     (case get r ''data'' of Inl e \<Rightarrow> Inl e | Inr d \<Rightarrow>
                        if truthy d then
                          (case get d ''message'' of Inl e \<Rightarrow> Inl e | Inr dm \<Rightarrow>
                             Inr (respond500 (if truthy dm then dm else errorMessage)
                                    (errorDetails @ [(''apiResponse'', d)])))
                        else Inr (respond500 errorMessage errorDetails))
                   else Inr (respond500 errorMessage errorDetails)))))
      else Inr (respond500 (JStr msg_unknown) []))"

text \<open>
  The handler: a response of the \<^verbatim>\<open>try\<close> block is the handler's response, and a value
  thrown there goes through \<^verbatim>\<open>catch\<close>. Both files have this handler.
\<close>

definition create_preference ::
  "(rat \<Rightarrow> rat) \<Rightarrow> (jsval \<Rightarrow> string) \<Rightarrow> string \<Rightarrow> (jsval \<Rightarrow> jsval + jsval) \<Rightarrow> jsval \<Rightarrow> outcome"
where
  "create_preference d64 stringify BASE_URL create req_body =
     (case try_block d64 stringify BASE_URL create req_body of
        (Inr res, calls) \<Rightarrow> (Inr res, calls)
      | (Inl error, calls) \<Rightarrow> (catch_block error, calls))"

section \<open>What the specification says\<close>

text \<open>
  The field of a value as the specification speaks of it: a field that is not there is
  \<^verbatim>\<open>undefined\<close>, and a value that is not an object has no fields.
\<close>

fun property :: "jsval \<Rightarrow> string \<Rightarrow> jsval" where
  "property (JObj kvs) k = (case map_of kvs k of Some v \<Rightarrow> v | None \<Rightarrow> JUndefined)"
| "property v k = JUndefined"

text \<open>
  A cart item is valid when its title is non-empty text (after trimming) and its quantity
  and unit price are numbers strictly greater than zero.
\<close>

fun nonblank_text :: "jsval \<Rightarrow> bool" where
  "nonblank_text (JStr s) = (trim s \<noteq> [])"
| "nonblank_text v = False"

fun positive_number :: "jsval \<Rightarrow> bool" where
  "positive_number (JNum (Fin r)) = (0 < r)"
| "positive_number (JNum PosInf) = True"
| "positive_number v = False"

definition valid_item :: "jsval \<Rightarrow> bool" where
  "valid_item item \<longleftrightarrow>
     nonblank_text (property item ''title'') \<and>
     positive_number (property item ''quantity'') \<and>
     positive_number (property item ''unit_price'')"

text \<open>A cart is valid when it has at least one item and every item is valid.\<close>

definition cart_items :: "jsval \<Rightarrow> jsval list" where
  "cart_items req_body = elements (property req_body ''items'')"

definition valid_cart :: "jsval \<Rightarrow> bool" where
  "valid_cart req_body \<longleftrightarrow>
     isArray (property req_body ''items'') \<and> cart_items req_body \<noteq> [] \<and>
     list_all valid_item (cart_items req_body)"

text \<open>
  A price rounded to two decimal places, half up, and then taken as a double. The special
  values have no decimal places to round.
\<close>

definition round_half_up_2 :: "rat \<Rightarrow> rat" where
  "round_half_up_2 r = of_int \<lfloor>r * 100 + 1 / 2\<rfloor> / 100"

fun rounded_price :: "(rat \<Rightarrow> rat) \<Rightarrow> jsval \<Rightarrow> jsval" where
  "rounded_price d64 (JNum (Fin r)) = JNum (Fin (d64 (round_half_up_2 r)))"
| "rounded_price d64 v = v"

text \<open>
  The model's finite numbers are all rationals, the program's are doubles. A double of
  magnitude \<open>10\<^sup>2\<^sup>1\<close> or more is a whole number (it is beyond \<open>2\<^sup>5\<^sup>3\<close>), and the conversion
  to the nearest double leaves a double as it is. \<open>price_ok\<close> asks this of a price.
\<close>

definition whole_double :: "(rat \<Rightarrow> rat) \<Rightarrow> rat \<Rightarrow> bool" where
  "whole_double d64 r \<longleftrightarrow> of_int \<lfloor>r\<rfloor> = r \<and> d64 r = r"

fun price_ok :: "(rat \<Rightarrow> rat) \<Rightarrow> jsval \<Rightarrow> bool" where
  "price_ok d64 (JNum (Fin r)) = (10 ^ 21 \<le> r \<longrightarrow> whole_double d64 r)"
| "price_ok d64 v = True"

text \<open>
  The item sent to the provider for an item of the cart: title and quantity as they are,
  the unit price rounded, and nothing else.
\<close>

definition expected_item :: "(rat \<Rightarrow> rat) \<Rightarrow> jsval \<Rightarrow> jsval" where
  "expected_item d64 item =
     JObj [(''title'', property item ''title''),
           (''quantity'', property item ''quantity''),
           (''unit_price'', rounded_price d64 (property item ''unit_price''))]"

text \<open>
  The normalized error: the message of the nested response data overrides the message of
  the error, which overrides the generic text; status, cause and the nested response data
  are copied into the details when they are there (truthy).
\<close>

definition error_message :: "jsval \<Rightarrow> jsval" where
  "error_message e =
     (if truthy (property (property (property e ''response'') ''data'') ''message'')
      then property (property (property e ''response'') ''data'') ''message''
      else if truthy (property e ''message'') then property e ''message''
      else JStr msg_unknown)"

definition error_details :: "jsval \<Rightarrow> (string \<times> jsval) list" where
  "error_details e =
     (if truthy (property e ''status'') then [(''status'', property e ''status'')] else [])
   @ (if truthy (property e ''cause'') then [(''cause'', property e ''cause'')] else [])
   @ (if truthy (property (property e ''response'') ''data'')
      then [(''apiResponse'', property (property e ''response'') ''data'')] else [])"

text \<open>The two messages an error can carry.\<close>

definition carried_messages :: "jsval \<Rightarrow> jsval list" where
  "carried_messages e =
     [property e ''message'',
      property (property (property e ''response'') ''data'') ''message'']"

text \<open>An object in the sense of the specification: \<^verbatim>\<open>null\<close> is not one.\<close>

fun is_object :: "jsval \<Rightarrow> bool" where
  "is_object (JObj kvs) = True"
| "is_object (JArr xs) = True"
| "is_object v = False"

definition structureless :: "jsval \<Rightarrow> bool" where
  "structureless e \<longleftrightarrow>
     property e ''message'' = JUndefined \<and> property e ''status'' = JUndefined \<and>
     property e ''cause'' = JUndefined \<and>
     property (property e ''response'') ''data'' = JUndefined"

fun zero_or_NaN :: "jsval \<Rightarrow> bool" where
  "zero_or_NaN (JNum NaN) = True"
| "zero_or_NaN (JNum (Fin r)) = (r = 0)"
| "zero_or_NaN v = False"

section \<open>Sample inputs\<close>

text \<open>
  Stand-ins for the two parameters to run the examples with (the identity, which is right
  on every value that is a double, and a constant text; the theorems hold for every choice
  of the two), providers that resolve and reject, and the cart of the specification's
  second scenario, \<^verbatim>\<open>{items: [{title: "Shirt", quantity: 2, unit_price: 19.999}]}\<close>. The
  double that \<^verbatim>\<open>19.999\<close> denotes is \<open>5629218059236409 / 2\<^sup>4\<^sup>8\<close>.
\<close>

definition d64_sample :: "rat \<Rightarrow> rat" where
  "d64_sample r = r"

definition stringify_sample :: "jsval \<Rightarrow> string" where
  "stringify_sample v = ''{}''"

definition resolves :: "jsval \<Rightarrow> jsval \<Rightarrow> jsval + jsval" where
  "resolves resp req = Inr resp"

definition rejects :: "jsval \<Rightarrow> jsval \<Rightarrow> jsval + jsval" where
  "rejects e req = Inl e"

definition double_19_999 :: rat where
  "double_19_999 = 5629218059236409 / 281474976710656"

definition shirt :: jsval where
  "shirt = JObj [(''title'', JStr ''Shirt''), (''quantity'', JNum (Fin 2)),
                 (''unit_price'', JNum (Fin double_19_999))]"

definition shirt_cart :: jsval where
  "shirt_cart = JObj [(''items'', JArr [shirt])]"

definition shirt_sent :: jsval where
  "shirt_sent = JObj [(''title'', JStr ''Shirt''), (''quantity'', JNum (Fin 2)),
                      (''unit_price'', JNum (Fin 20))]"


section \<open>The handler against the specification\<close>

subsection \<open>Reading fields\<close>

lemma floor_rat_numeral: "\<lfloor>numeral a / numeral b :: rat\<rfloor> = numeral a div numeral b"
  by (metis floor_divide_of_int_eq of_int_numeral)

lemma get_property: "v \<noteq> JUndefined \<Longrightarrow> v \<noteq> JNull \<Longrightarrow> get v k = Inr (property v k)"
  by (cases v) simp_all

lemma destructure_items_property:
  "v \<noteq> JUndefined \<Longrightarrow> v \<noteq> JNull \<Longrightarrow> destructure_items v = Inr (property v ''items'')"
  by (cases v) simp_all

lemma truthy_defined: "truthy v \<Longrightarrow> v \<noteq> JUndefined \<and> v \<noteq> JNull"
  by (cases v) auto

lemma property_falsy: "\<not> truthy v \<Longrightarrow> property v k = JUndefined"
  by (cases v) auto

lemma property_defined: "property v k \<noteq> JUndefined \<Longrightarrow> v \<noteq> JUndefined \<and> v \<noteq> JNull"
  by (cases v) auto

lemma trim_Nil: "trim [] = []"
  by (simp add: trim_def)

subsection \<open>Validation\<close>

text \<open>The three checks of the loop are the three constraints of a cart item.\<close>

lemma title_check:
  "(\<not> truthy t \<or> typeof t \<noteq> ''string'' \<or> title_blank t) = (\<not> nonblank_text t)"
  by (cases t) (auto simp: trim_Nil)

lemma number_check:
  "(\<not> truthy q \<or> typeof q \<noteq> ''number'' \<or> le_zero q) = (\<not> positive_number q)"
proof (cases q)
  case (JNum x)
  then show ?thesis by (cases x) auto
qed auto

lemma item_invalid_iff:
  assumes "item \<noteq> JUndefined" and "item \<noteq> JNull"
  shows "item_invalid item = Inr (\<not> valid_item item)"
proof -
  have g: "\<And>k. get item k = Inr (property item k)"
    using assms by (rule get_property)
  show ?thesis
    unfolding item_invalid_def valid_item_def g sum.case title_check number_check
    by simp
qed

lemma valid_item_defined: "valid_item item \<Longrightarrow> item \<noteq> JUndefined \<and> item \<noteq> JNull"
  by (auto simp: valid_item_def)

lemma validate_items_valid:
  "\<forall>item\<in>set items. valid_item item \<Longrightarrow> validate_items items = Inr None"
  by (induction items) (auto simp: item_invalid_iff valid_item_defined)

lemma validate_items_first:
  "\<forall>item\<in>set pre. valid_item item \<Longrightarrow> bad \<noteq> JUndefined \<Longrightarrow> bad \<noteq> JNull
    \<Longrightarrow> \<not> valid_item bad \<Longrightarrow> validate_items (pre @ bad # post) = Inr (Some bad)"
  by (induction pre) (auto simp: item_invalid_iff valid_item_defined)

lemma validate_items_rejects:
  "\<forall>x\<in>set pre. x \<noteq> JNull \<and> x \<noteq> JUndefined \<Longrightarrow> item \<noteq> JNull \<Longrightarrow> item \<noteq> JUndefined
    \<Longrightarrow> \<not> valid_item item \<Longrightarrow> \<exists>bad. validate_items (pre @ item # post) = Inr (Some bad)"
proof (induction pre)
  case Nil
  then show ?case by (simp add: item_invalid_iff)
next
  case (Cons a pre)
  then show ?case by (cases "valid_item a") (simp_all add: item_invalid_iff)
qed

lemma valid_cart_items:
  assumes "valid_cart req_body"
  shows "destructure_items req_body = Inr (JArr (cart_items req_body))"
    and "cart_items req_body \<noteq> []"
    and "\<forall>item\<in>set (cart_items req_body). valid_item item"
proof -
  from assms obtain xs where xs: "property req_body ''items'' = JArr xs"
    by (cases "property req_body ''items''") (auto simp: valid_cart_def)
  then have "property req_body ''items'' \<noteq> JUndefined" by simp
  then have "destructure_items req_body = Inr (property req_body ''items'')"
    using property_defined destructure_items_property by blast
  then show "destructure_items req_body = Inr (JArr (cart_items req_body))"
    by (simp add: xs cart_items_def)
  show "cart_items req_body \<noteq> []" using assms by (simp add: valid_cart_def)
  show "\<forall>item\<in>set (cart_items req_body). valid_item item"
    using assms by (simp add: valid_cart_def list_all_iff)
qed

subsection \<open>Building the preference\<close>

text \<open>
  \<open>round_half_up_2\<close> is rounding to two decimal places: its value is a whole number of
  hundredths, and no hundredth is nearer to the argument.
\<close>

lemma round_half_up_2_hundredths: "\<exists>n::int. round_half_up_2 r * 100 = of_int n"
  by (simp add: round_half_up_2_def)

lemma round_half_up_2_nearest: "\<bar>round_half_up_2 r - r\<bar> \<le> 1 / 200"
proof -
  let ?n = "\<lfloor>r * 100 + 1 / 2\<rfloor>"
  have "of_int ?n \<le> r * 100 + 1 / 2" by (rule of_int_floor_le)
  moreover have "r * 100 + 1 / 2 < of_int ?n + 1"
    using floor_correct[of "r * 100 + 1 / 2"] by simp
  ultimately have "\<bar>of_int ?n - r * 100\<bar> \<le> 1 / 2" by linarith
  then have "\<bar>(of_int ?n - r * 100) / 100\<bar> \<le> (1 / 2) / 100"
    by (simp add: abs_divide divide_le_cancel del: of_int_diff)
  then show ?thesis by (simp add: round_half_up_2_def diff_divide_distrib)
qed

lemma round_half_up_2_whole: "of_int \<lfloor>r\<rfloor> = r \<Longrightarrow> round_half_up_2 r = r"
proof -
  assume "of_int \<lfloor>r\<rfloor> = (r::rat)"
  then obtain k :: int where k: "r = of_int k" by metis
  have "\<lfloor>(of_int (k * 100) :: rat) + 1 / 2\<rfloor> = k * 100"
    by (rule floor_unique) simp_all
  then have "\<lfloor>r * 100 + 1 / 2\<rfloor> = k * 100" by (simp add: k)
  then show ?thesis by (simp add: round_half_up_2_def k)
qed

lemma price_rounding:
  assumes "positive_number (JNum x)" and "price_ok d64 (JNum x)"
  shows "JNum (parseFloat d64 (toFixed2 x)) = rounded_price d64 (JNum x)"
proof (cases x)
  case (Fin r)
  with assms have pos: "0 < r" and ok: "10 ^ 21 \<le> r \<longrightarrow> whole_double d64 r" by auto
  show ?thesis
  proof (cases "10 ^ 21 \<le> r")
    case True
    with ok have "round_half_up_2 r = r" "d64 r = r"
      by (simp_all add: whole_double_def round_half_up_2_whole)
    with True pos Fin show ?thesis by simp
  next
    case False
    with pos Fin show ?thesis by (simp add: round_half_up_2_def)
  qed
qed (use assms in auto)

lemma build_item_defined:
  assumes "valid_item item"
  shows "\<exists>out. build_item d64 item = Inr out"
proof -
  have "item \<noteq> JUndefined" "item \<noteq> JNull" using assms valid_item_defined by auto
  then have g: "\<And>k. get item k = Inr (property item k)" by (rule get_property)
  have "positive_number (property item ''unit_price'')"
    using assms by (simp add: valid_item_def)
  then obtain x where x: "property item ''unit_price'' = JNum x"
    by (cases "property item ''unit_price''") auto
  show ?thesis unfolding build_item_def g sum.case x by simp
qed

lemma build_item_valid:
  assumes "valid_item item" and "price_ok d64 (property item ''unit_price'')"
  shows "build_item d64 item = Inr (expected_item d64 item)"
proof -
  have "item \<noteq> JUndefined" "item \<noteq> JNull" using assms(1) valid_item_defined by auto
  then have g: "\<And>k. get item k = Inr (property item k)" by (rule get_property)
  have p: "positive_number (property item ''unit_price'')"
    using assms(1) by (simp add: valid_item_def)
  then obtain x where x: "property item ''unit_price'' = JNum x"
    by (cases "property item ''unit_price''") auto
  have "JNum (parseFloat d64 (toFixed2 x)) = rounded_price d64 (JNum x)"
    using p assms(2) unfolding x by (rule price_rounding)
  then show ?thesis
    unfolding build_item_def g sum.case expected_item_def x by simp
qed

lemma map_throwing_all:
  "\<forall>x\<in>set xs. f x = Inr (g x) \<Longrightarrow> map_throwing f xs = Inr (map g xs)"
  by (induction xs) auto

lemma map_throwing_defined:
  "\<forall>x\<in>set xs. \<exists>y. f x = Inr y \<Longrightarrow> \<exists>ys. map_throwing f xs = Inr ys"
  by (induction xs) auto

text \<open>For a valid cart the preference is always built: no item makes the callback throw.\<close>

lemma preferenceData_defined:
  assumes "\<forall>item\<in>set items. valid_item item"
  shows "\<exists>pref. preferenceData d64 BASE_URL items = Inr pref"
proof -
  have "\<forall>item\<in>set items. \<exists>y. build_item d64 item = Inr y"
    using assms build_item_defined by blast
  then obtain ys where "map_throwing (build_item d64) items = Inr ys"
    using map_throwing_defined by blast
  then show ?thesis by (simp add: preferenceData_def)
qed

lemma preferenceData_valid:
  assumes "\<forall>item\<in>set items. valid_item item"
    and "\<forall>item\<in>set items. price_ok d64 (property item ''unit_price'')"
  shows "preferenceData d64 BASE_URL items =
     Inr (JObj [(''items'', JArr (map (expected_item d64) items)),
                (''back_urls'', back_urls BASE_URL)])"
proof -
  have "\<forall>item\<in>set items. build_item d64 item = Inr (expected_item d64 item)"
    using assms build_item_valid by blast
  then have "map_throwing (build_item d64) items = Inr (map (expected_item d64) items)"
    by (rule map_throwing_all)
  then show ?thesis by (simp add: preferenceData_def)
qed

subsection \<open>The two blocks\<close>

lemma try_block_valid:
  assumes "valid_cart req_body"
    and "preferenceData d64 BASE_URL (cart_items req_body) = Inr pref"
  shows "try_block d64 stringify BASE_URL create req_body =
     (case create (JObj [(''body'', pref)]) of
        Inl e \<Rightarrow> (Inl e, [JObj [(''body'', pref)]])
      | Inr resp \<Rightarrow>
          (case get resp ''init_point'' of
             Inl e \<Rightarrow> (Inl e, [JObj [(''body'', pref)]])
           | Inr init_point \<Rightarrow>
               (Inr \<lparr>status = 200, json = JObj [(''init_point'', init_point)]\<rparr>,
                [JObj [(''body'', pref)]])))"
  using valid_cart_items[OF assms(1)] assms(2)
  by (simp add: try_block_def validate_items_valid)

text \<open>
  The \<^verbatim>\<open>catch\<close> block never throws, and its response is the normalized error of the
  specification.
\<close>

lemma catch_block_closed_form:
  "catch_block e = Inr (respond500 (error_message e) (error_details e))"
proof (cases "truthy e \<and> typeof e = ''object''")
  case True
  then have g: "\<And>k. get e k = Inr (property e k)"
    using truthy_defined get_property by blast
  show ?thesis
  proof (cases "truthy (property e ''response'')")
    case r: True
    then have gr: "\<And>k. get (property e ''response'') k
        = Inr (property (property e ''response'') k)"
      using truthy_defined get_property by blast
    show ?thesis
    proof (cases "truthy (property (property e ''response'') ''data'')")
      case d: True
      then have gd: "\<And>k. get (property (property e ''response'') ''data'') k
          = Inr (property (property (property e ''response'') ''data'') k)"
        using truthy_defined get_property by blast
      show ?thesis using True r d
        by (simp add: catch_block_def g gr gd error_message_def error_details_def Let_def)
    next
      case d: False
      show ?thesis using True r d
        by (simp add: catch_block_def g gr error_message_def error_details_def Let_def
            property_falsy)
    qed
  next
    case r: False
    show ?thesis using True r
      by (simp add: catch_block_def g error_message_def error_details_def Let_def
          property_falsy)
  qed
next
  case False
  then have "\<And>k. property e k = JUndefined" by (cases e) auto
  moreover have "catch_block e = Inr (respond500 (JStr msg_unknown) [])"
    using False unfolding catch_block_def by (simp only: if_False)
  ultimately show ?thesis
    by (simp add: error_message_def error_details_def)
qed

lemma create_preference_rejected:
  assumes "valid_cart req_body"
    and "preferenceData d64 BASE_URL (cart_items req_body) = Inr pref"
    and "create (JObj [(''body'', pref)]) = Inl e"
  shows "create_preference d64 stringify BASE_URL create req_body =
     (Inr (respond500 (error_message e) (error_details e)), [JObj [(''body'', pref)]])"
  using try_block_valid[OF assms(1,2)] assms(3)
  by (simp add: create_preference_def catch_block_closed_form)

lemma create_preference_calls:
  assumes "valid_cart req_body"
    and "preferenceData d64 BASE_URL (cart_items req_body) = Inr pref"
  shows "snd (create_preference d64 stringify BASE_URL create req_body)
     = [JObj [(''body'', pref)]]"
  using try_block_valid[OF assms, of stringify create]
  by (simp add: create_preference_def split: sum.splits)

text \<open>The sample cart is valid, and this is its preference.\<close>

lemma shirt_valid: "valid_item shirt"
  by (simp add: valid_item_def shirt_def double_19_999_def trim_def is_space_def)

lemma shirt_cart_valid: "valid_cart shirt_cart"
  by (simp add: valid_cart_def cart_items_def shirt_cart_def shirt_valid)

lemma shirt_cart_items: "cart_items shirt_cart = [shirt]"
  by (simp add: cart_items_def shirt_cart_def)

lemma shirt_preference:
  "preferenceData d64 BASE_URL [shirt] =
     Inr (JObj [(''items'', JArr [JObj [(''title'', JStr ''Shirt''), (''quantity'', JNum (Fin 2)),
                                       (''unit_price'', JNum (Fin (d64 20)))]]),
                (''back_urls'', back_urls BASE_URL)])"
  by (simp add: preferenceData_def build_item_def shirt_def double_19_999_def
      floor_rat_numeral)

section \<open>The claims\<close>

subsection \<open>Redirect URLs\<close>

text \<open>
  In \<^verbatim>\<open>src/unnamed/part_000\<close> one slash at the end of the configured base URL is removed
  before the three suffixes are appended, so a base URL given with or without it leads to
  the same redirect URLs.
\<close>

lemma replace_trailing_slash_snoc: "replace_trailing_slash (s @ ''/'') = s"
  by (simp add: replace_trailing_slash_def)

lemma replace_trailing_slash_id:
  "s = [] \<or> last s \<noteq> CHR ''/'' \<Longrightarrow> replace_trailing_slash s = s"
  by (auto simp: replace_trailing_slash_def)

lemma part_000_slash_immaterial:
  assumes "s \<noteq> []"
  shows "BASE_URL_part_000 (env(''NEXT_PUBLIC_BASE_URL'' \<mapsto> s @ ''/'')) = s"
  by (simp add: BASE_URL_part_000_def replace_trailing_slash_snoc)

lemma part_000_sample_urls:
  "back_urls (BASE_URL_part_000 [''NEXT_PUBLIC_BASE_URL'' \<mapsto> ''http://localhost:3000/'']) =
     JObj [(''success'', JStr ''http://localhost:3000/success''),
           (''failure'', JStr ''http://localhost:3000/failure''),
           (''pending'', JStr ''http://localhost:3000/pending'')]"
  by (simp add: back_urls_def BASE_URL_part_000_def replace_trailing_slash_def)

text \<open>
  Claim C1: for every configured base URL the three redirect URLs sent to the provider are
  the base URL without its trailing slash followed by \<^verbatim>\<open>/success\<close>, \<^verbatim>\<open>/failure\<close> and
  \<^verbatim>\<open>/pending\<close>, with no double slash. \<^verbatim>\<open>src/index.js\<close> does not remove the slash: with
  \<^verbatim>\<open>NEXT_PUBLIC_BASE_URL=http://localhost:3000/\<close> the preference it sends for the sample
  cart has the redirect URLs \<^verbatim>\<open>http://localhost:3000//success\<close>,
  \<^verbatim>\<open>http://localhost:3000//failure\<close> and \<^verbatim>\<open>http://localhost:3000//pending\<close>.
\<close>

theorem index_js_keeps_trailing_slash:
  "snd (create_preference d64 stringify
          (BASE_URL_index [''NEXT_PUBLIC_BASE_URL'' \<mapsto> ''http://localhost:3000/''])
          create shirt_cart) =
     [JObj [(''body'',
        JObj [(''items'', JArr [JObj [(''title'', JStr ''Shirt''), (''quantity'', JNum (Fin 2)),
                                      (''unit_price'', JNum (Fin (d64 20)))]]),
              (''back_urls'',
                 JObj [(''success'', JStr ''http://localhost:3000//success''),
                       (''failure'', JStr ''http://localhost:3000//failure''),
                       (''pending'', JStr ''http://localhost:3000//pending'')])])]]"
proof -
  have "preferenceData d64
      (BASE_URL_index [''NEXT_PUBLIC_BASE_URL'' \<mapsto> ''http://localhost:3000/''])
      (cart_items shirt_cart) =
    Inr (JObj [(''items'', JArr [JObj [(''title'', JStr ''Shirt''), (''quantity'', JNum (Fin 2)),
                                      (''unit_price'', JNum (Fin (d64 20)))]]),
              (''back_urls'',
                 JObj [(''success'', JStr ''http://localhost:3000//success''),
                       (''failure'', JStr ''http://localhost:3000//failure''),
                       (''pending'', JStr ''http://localhost:3000//pending'')])])"
    by (simp add: shirt_cart_items shirt_preference back_urls_def BASE_URL_index_def)
  then show ?thesis
    by (rule create_preference_calls[OF shirt_cart_valid])
qed

subsection \<open>The items sent to the provider\<close>

text \<open>
  Claim C2: for every valid cart, the items of the preference sent to the provider are the
  items of the cart in the same order, each one an object with exactly the fields
  \<^verbatim>\<open>title\<close> (unchanged), \<^verbatim>\<open>quantity\<close> (unchanged) and \<^verbatim>\<open>unit_price\<close>, the price of the
  item rounded to two decimal places; every other field of an item is dropped. (The
  prices are doubles: see \<open>price_ok\<close>.)
\<close>

theorem outbound_items_rounded:
  assumes "valid_cart req_body"
    and "\<forall>item\<in>set (cart_items req_body). price_ok d64 (property item ''unit_price'')"
  shows "snd (create_preference d64 stringify BASE_URL create req_body) =
     [JObj [(''body'',
        JObj [(''items'', JArr (map (expected_item d64) (cart_items req_body))),
              (''back_urls'', back_urls BASE_URL)])]]"
proof -
  have "preferenceData d64 BASE_URL (cart_items req_body) =
     Inr (JObj [(''items'', JArr (map (expected_item d64) (cart_items req_body))),
                (''back_urls'', back_urls BASE_URL)])"
    using valid_cart_items(3)[OF assms(1)] assms(2) by (rule preferenceData_valid)
  then show ?thesis
    by (rule create_preference_calls[OF assms(1)])
qed

theorem outbound_items_rounded_witness:
  "valid_cart shirt_cart \<and>
   snd (create_preference d64_sample stringify_sample ''http://localhost:3000''
          (resolves JNull) shirt_cart) =
     [JObj [(''body'',
        JObj [(''items'', JArr [shirt_sent]),
              (''back_urls'', back_urls ''http://localhost:3000'')])]]"
proof -
  have ok: "\<forall>item\<in>set (cart_items shirt_cart). price_ok d64_sample (property item ''unit_price'')"
    by (simp add: shirt_cart_items shirt_def double_19_999_def)
  have "expected_item d64_sample shirt = shirt_sent"
    by (simp add: expected_item_def shirt_def double_19_999_def shirt_sent_def
        round_half_up_2_def d64_sample_def floor_rat_numeral)
  then show ?thesis
    using outbound_items_rounded[OF shirt_cart_valid ok, of stringify_sample
        "''http://localhost:3000''" "resolves JNull"]
    by (simp add: shirt_cart_valid shirt_cart_items)
qed

subsection \<open>Rejected requests\<close>

text \<open>
  When the request body is there (\<^verbatim>\<open>express.json()\<close> has parsed an object or an array)
  and its \<^verbatim>\<open>items\<close> field is absent, is not an array or is the empty array, the handler
  responds with HTTP 400 and a JSON body with a message string, and the provider is not
  called.
\<close>

lemma missing_items_rejected:
  assumes "req_body \<noteq> JUndefined" and "req_body \<noteq> JNull"
    and "property req_body ''items'' = JUndefined
       \<or> \<not> isArray (property req_body ''items'')
       \<or> property req_body ''items'' = JArr []"
  shows "create_preference d64 stringify BASE_URL create req_body =
     (Inr \<lparr>status = 400, json = JObj [(''message'', JStr msg_items)]\<rparr>, [])"
proof -
  have "destructure_items req_body = Inr (property req_body ''items'')"
    using assms(1,2) by (rule destructure_items_property)
  moreover have "\<not> truthy (property req_body ''items'') \<or> \<not> isArray (property req_body ''items'')
      \<or> length (elements (property req_body ''items'')) = 0"
    using assms(3) by auto
  ultimately show ?thesis
    by (simp add: create_preference_def try_block_def)
qed

lemma missing_items_rejected_witness:
  "create_preference d64_sample stringify_sample ''http://localhost:3000'' (resolves JNull)
     (JObj [(''items'', JArr [])]) =
     (Inr \<lparr>status = 400, json = JObj [(''message'', JStr msg_items)]\<rparr>, []) \<and>
   create_preference d64_sample stringify_sample ''http://localhost:3000'' (resolves JNull)
     (JObj [(''pedidoId'', JStr ''7'')]) =
     (Inr \<lparr>status = 400, json = JObj [(''message'', JStr msg_items)]\<rparr>, [])"
  using missing_items_rejected[of "JObj [(''items'', JArr [])]" d64_sample stringify_sample
        "''http://localhost:3000''" "resolves JNull"]
    missing_items_rejected[of "JObj [(''pedidoId'', JStr ''7'')]" d64_sample stringify_sample
        "''http://localhost:3000''" "resolves JNull"]
  by simp

text \<open>
  Claim C3: for every request body in which the \<^verbatim>\<open>items\<close> field is absent, is not an
  array or is the empty array, the handler responds with HTTP 400 and a JSON body with a
  message string, and the provider is not called. A request with no body that
  \<^verbatim>\<open>express.json()\<close> parses leaves \<^verbatim>\<open>req.body\<close> undefined (Express 5): no \<^verbatim>\<open>items\<close>
  field is there, but the destructuring \<^verbatim>\<open>const { items } = req.body\<close> throws before the
  check of \<^verbatim>\<open>items\<close>, and the request is answered with HTTP 500 and the message of the
  engine's error.
\<close>

theorem undefined_body_answered_500:
  "create_preference d64 stringify BASE_URL create JUndefined =
     (Inr \<lparr>status = 500,
           json = JObj [(''message'',
                           JStr (''Cannot destructure property '' @ quoted ''items''
                                 @ '' of '' @ quoted ''req.body''
                                 @ '' as it is undefined.'')),
                        (''details'', JObj [])]\<rparr>, [])"
  by (simp add: create_preference_def try_block_def catch_block_def type_error_def
      respond500_def quoted_def)

text \<open>
  An item that is not valid, and is not \<^verbatim>\<open>null\<close>, is answered with HTTP 400 and its
  serialization, when every item before it is valid; the provider is not called.
\<close>

lemma invalid_item_rejected:
  assumes "property req_body ''items'' = JArr (pre @ bad # post)"
    and "\<forall>item\<in>set pre. valid_item item"
    and "bad \<noteq> JUndefined" and "bad \<noteq> JNull" and "\<not> valid_item bad"
  shows "create_preference d64 stringify BASE_URL create req_body =
     (Inr \<lparr>status = 400, json = JObj [(''message'', JStr (msg_item @ stringify bad))]\<rparr>, [])"
proof -
  have "property req_body ''items'' \<noteq> JUndefined" using assms(1) by simp
  then have "destructure_items req_body = Inr (JArr (pre @ bad # post))"
    using property_defined destructure_items_property assms(1) by metis
  moreover have "validate_items (pre @ bad # post) = Inr (Some bad)"
    using assms(2-5) by (rule validate_items_first)
  ultimately show ?thesis
    by (simp add: create_preference_def try_block_def)
qed

text \<open>
  Claim C4: a non-empty \<^verbatim>\<open>items\<close> array with an item whose title is missing, not a
  string or blank, or whose quantity or unit price is missing, not a number or \<open>\<le> 0\<close>, is
  answered with HTTP 400 and a message with the serialization of the first such item,
  and the provider is not called. The element \<^verbatim>\<open>null\<close> has no title, but reading
  \<^verbatim>\<open>item.title\<close> throws on it: the request \<^verbatim>\<open>{"items":[null]}\<close> is answered with HTTP
  500 and the message of the engine's error.
\<close>

theorem null_item_answered_500:
  "create_preference d64 stringify BASE_URL create (JObj [(''items'', JArr [JNull])]) =
     (Inr \<lparr>status = 500,
           json = JObj [(''message'',
                           JStr (''Cannot read properties of null (reading ''
                                 @ quoted ''title'' @ '')'')),
                        (''details'', JObj [])]\<rparr>, [])"
  by (simp add: create_preference_def try_block_def item_invalid_def catch_block_def
      type_error_def respond500_def quoted_def)

subsection \<open>The provider's answer\<close>

text \<open>
  Claim C5: for every valid cart for which the provider's call succeeds with a response
  that carries an \<^verbatim>\<open>init_point\<close> value, the handler responds with HTTP 200 and the JSON
  body \<^verbatim>\<open>{ init_point: <that value> }\<close>; the other fields of the provider's response are
  dropped.
\<close>

theorem success_returns_init_point:
  assumes "valid_cart req_body"
    and "preferenceData d64 BASE_URL (cart_items req_body) = Inr pref"
    and "create (JObj [(''body'', pref)]) = Inr resp"
    and "property resp ''init_point'' = v" and "v \<noteq> JUndefined"
  shows "fst (create_preference d64 stringify BASE_URL create req_body) =
     Inr \<lparr>status = 200, json = JObj [(''init_point'', v)]\<rparr>"
proof -
  have "resp \<noteq> JUndefined \<and> resp \<noteq> JNull"
    using assms(4,5) property_defined by blast
  then have "get resp ''init_point'' = Inr v"
    using assms(4) get_property by simp
  then show ?thesis
    using try_block_valid[OF assms(1,2), of stringify create] assms(3)
    by (simp add: create_preference_def)
qed

theorem success_returns_init_point_witness:
  "valid_cart shirt_cart \<and>
   fst (create_preference d64_sample stringify_sample ''http://localhost:3000''
          (resolves (JObj [(''id'', JStr ''123''),
                           (''init_point'', JStr ''https://pay.example/abc'')]))
          shirt_cart) =
     Inr \<lparr>status = 200, json = JObj [(''init_point'', JStr ''https://pay.example/abc'')]\<rparr>"
  using success_returns_init_point[OF shirt_cart_valid, of d64_sample
      "''http://localhost:3000''" _
      "resolves (JObj [(''id'', JStr ''123''), (''init_point'', JStr ''https://pay.example/abc'')])"
      "JObj [(''id'', JStr ''123''), (''init_point'', JStr ''https://pay.example/abc'')]"
      "JStr ''https://pay.example/abc''" stringify_sample]
  by (simp add: shirt_cart_valid shirt_cart_items shirt_preference resolves_def)

subsection \<open>The provider's failure\<close>

text \<open>
  Claim C6 says that for every value thrown by the provider's call the handler responds
  with HTTP 500 and a JSON body with a non-empty message string and a details object.
  The handler copies a truthy \<^verbatim>\<open>message\<close> whatever its type: when the provider throws
  \<^verbatim>\<open>{message: 42}\<close>, the message of the response is the number 42.
\<close>

theorem message_not_a_string_counterexample:
  "fst (create_preference d64_sample stringify_sample ''http://localhost:3000''
          (rejects (JObj [(''message'', JNum (Fin 42))])) shirt_cart) =
     Inr \<lparr>status = 500,
          json = JObj [(''message'', JNum (Fin 42)), (''details'', JObj [])]\<rparr>"
proof -
  have "create_preference d64_sample stringify_sample ''http://localhost:3000''
          (rejects (JObj [(''message'', JNum (Fin 42))])) shirt_cart =
     (Inr (respond500 (error_message (JObj [(''message'', JNum (Fin 42))]))
                      (error_details (JObj [(''message'', JNum (Fin 42))]))),
      [JObj [(''body'', JObj [(''items'', JArr [JObj [(''title'', JStr ''Shirt''),
            (''quantity'', JNum (Fin 2)), (''unit_price'', JNum (Fin (d64_sample 20)))]]),
          (''back_urls'', back_urls ''http://localhost:3000'')])]])"
    by (rule create_preference_rejected[OF shirt_cart_valid])
      (simp_all add: shirt_cart_items shirt_preference rejects_def)
  then show ?thesis
    by (simp add: respond500_def error_message_def error_details_def)
qed

text \<open>
  Claim C6, amended: for every value thrown by the provider's call whose
  \<^verbatim>\<open>message\<close> and \<^verbatim>\<open>response.data.message\<close>, where truthy, are strings, the handler
  responds with HTTP 500 and a JSON body with a non-empty message string and a details
  object; the message is the generic text when the error carries neither message.
\<close>

theorem error_response_shape:
  assumes "valid_cart req_body"
    and "preferenceData d64 BASE_URL (cart_items req_body) = Inr pref"
    and "create (JObj [(''body'', pref)]) = Inl e"
    and "\<forall>m\<in>set (carried_messages e). truthy m \<longrightarrow> typeof m = ''string''"
  shows "\<exists>s details. s \<noteq> [] \<and>
     fst (create_preference d64 stringify BASE_URL create req_body) =
       Inr \<lparr>status = 500, json = JObj [(''message'', JStr s), (''details'', JObj details)]\<rparr> \<and>
     ((\<forall>m\<in>set (carried_messages e). \<not> truthy m) \<longrightarrow> s = msg_unknown)"
proof -
  have "truthy (error_message e)"
    by (simp add: error_message_def msg_unknown_def)
  moreover have "typeof (error_message e) = ''string''"
    using assms(4) by (simp add: error_message_def carried_messages_def)
  ultimately obtain s where s: "error_message e = JStr s" "s \<noteq> []"
    by (cases "error_message e") auto
  have "(\<forall>m\<in>set (carried_messages e). \<not> truthy m) \<longrightarrow> s = msg_unknown"
    using s(1) by (auto simp: error_message_def carried_messages_def)
  moreover have "fst (create_preference d64 stringify BASE_URL create req_body) =
       Inr \<lparr>status = 500,
            json = JObj [(''message'', JStr s), (''details'', JObj (error_details e))]\<rparr>"
    using create_preference_rejected[where create = create and stringify = stringify,
        OF assms(1-3)] s(1)
    by (simp add: respond500_def)
  ultimately show ?thesis using s(2) by blast
qed

theorem error_response_shape_witness:
  "\<exists>s details. s \<noteq> [] \<and>
     fst (create_preference d64_sample stringify_sample ''http://localhost:3000''
            (rejects (JObj [(''message'', JStr ''fetch failed'')])) shirt_cart) =
       Inr \<lparr>status = 500, json = JObj [(''message'', JStr s), (''details'', JObj details)]\<rparr>"
proof -
  have "\<forall>m\<in>set (carried_messages (JObj [(''message'', JStr ''fetch failed'')])).
          truthy m \<longrightarrow> typeof m = ''string''"
    by (simp add: carried_messages_def)
  from error_response_shape[OF shirt_cart_valid _ _ this, of d64_sample
      "''http://localhost:3000''" _ "rejects (JObj [(''message'', JStr ''fetch failed'')])"
      stringify_sample]
  show ?thesis
    by (simp add: shirt_cart_items shirt_preference rejects_def) blast
qed



text \<open>
  Claim C10: when the provider's call throws a value that is not an object (a string, a
  number, \<^verbatim>\<open>null\<close>) or an object with none of \<^verbatim>\<open>message\<close>, \<^verbatim>\<open>status\<close>, \<^verbatim>\<open>cause\<close> and
  \<^verbatim>\<open>response.data\<close>, the handler responds with HTTP 500, the message is the generic text
  and the details are the empty object; and for every thrown value the response has the
  shape \<^verbatim>\<open>{message, details}\<close>.
\<close>

theorem unknown_error_fallback:
  assumes "valid_cart req_body"
    and "preferenceData d64 BASE_URL (cart_items req_body) = Inr pref"
    and "create (JObj [(''body'', pref)]) = Inl e"
  shows "(\<not> is_object e \<or> structureless e \<longrightarrow>
       fst (create_preference d64 stringify BASE_URL create req_body) =
         Inr \<lparr>status = 500,
              json = JObj [(''message'', JStr msg_unknown), (''details'', JObj [])]\<rparr>) \<and>
     (\<exists>message details.
       fst (create_preference d64 stringify BASE_URL create req_body) =
         Inr \<lparr>status = 500,
              json = JObj [(''message'', message), (''details'', JObj details)]\<rparr>)"
proof -
  have r: "fst (create_preference d64 stringify BASE_URL create req_body) =
       Inr (respond500 (error_message e) (error_details e))"
    using create_preference_rejected[where create = create and stringify = stringify,
        OF assms] by simp
  have "error_message e = JStr msg_unknown \<and> error_details e = []"
    if "\<not> is_object e \<or> structureless e"
  proof -
    have "structureless e"
      using that by (cases e) (auto simp: structureless_def)
    then show ?thesis
      by (simp add: structureless_def error_message_def error_details_def)
  qed
  with r show ?thesis by (auto simp: respond500_def)
qed

theorem unknown_error_fallback_witness:
  "fst (create_preference d64_sample stringify_sample ''http://localhost:3000''
          (rejects (JStr ''timeout'')) shirt_cart) =
     Inr \<lparr>status = 500,
          json = JObj [(''message'', JStr msg_unknown), (''details'', JObj [])]\<rparr> \<and>
   fst (create_preference d64_sample stringify_sample ''http://localhost:3000''
          (rejects (JObj [(''code'', JStr ''E1'')])) shirt_cart) =
     Inr \<lparr>status = 500,
          json = JObj [(''message'', JStr msg_unknown), (''details'', JObj [])]\<rparr>"
  using unknown_error_fallback[OF shirt_cart_valid, of d64_sample
      "''http://localhost:3000''" _ "rejects (JStr ''timeout'')" "JStr ''timeout''"
      stringify_sample]
    unknown_error_fallback[OF shirt_cart_valid, of d64_sample
      "''http://localhost:3000''" _ "rejects (JObj [(''code'', JStr ''E1'')])"
      "JObj [(''code'', JStr ''E1'')]" stringify_sample]
  by (simp add: shirt_cart_items shirt_preference rejects_def structureless_def)

subsection \<open>Start-up and the falsiness checks\<close>

text \<open>
  With a token the client is made and the server listens on port 5000; an empty token is
  as good as none.
\<close>

lemma startup_with_token:
  "env ''MP_ACCESS_TOKEN'' = Some token \<Longrightarrow> token \<noteq> [] \<Longrightarrow>
     startup env = [NewClient token ''es-MX'', Listen 5000]"
  by (simp add: startup_def)

lemma startup_empty_token:
  "env ''MP_ACCESS_TOKEN'' = Some [] \<Longrightarrow> startup env = [ProcessExit 1]"
  by (simp add: startup_def)

text \<open>
  Claim C8: when the access token is absent from the environment at start-up, the process
  ends with exit code 1 and the server never starts to listen.
\<close>

theorem startup_without_token:
  assumes "env ''MP_ACCESS_TOKEN'' = None"
  shows "startup env = [ProcessExit 1] \<and> Listen 5000 \<notin> set (startup env)"
  using assms by (simp add: startup_def)

theorem startup_without_token_witness:
  "startup [''NEXT_PUBLIC_BASE_URL'' \<mapsto> ''https://shop.example''] = [ProcessExit 1]"
  using startup_without_token[of "[''NEXT_PUBLIC_BASE_URL'' \<mapsto> ''https://shop.example'']"]
  by simp

text \<open>
  When the loop reaches it (no element before it is \<^verbatim>\<open>null\<close>), an item whose quantity
  or unit price is NaN is rejected with HTTP 400, though NaN is of type number and
  \<^verbatim>\<open>NaN <= 0\<close> is false: NaN is falsy. An item whose quantity or unit price is 0 is
  rejected by the same check of falsiness.
\<close>

lemma nan_and_zero_rejected:
  assumes "property req_body ''items'' = JArr (pre @ item # post)"
    and "\<forall>x\<in>set pre. x \<noteq> JNull \<and> x \<noteq> JUndefined"
    and "zero_or_NaN (property item ''quantity'') \<or> zero_or_NaN (property item ''unit_price'')"
  shows "(\<exists>msg. create_preference d64 stringify BASE_URL create req_body =
            (Inr \<lparr>status = 400, json = JObj [(''message'', JStr msg)]\<rparr>, [])) \<and>
     typeof (JNum NaN) = ''number'' \<and> \<not> le_zero (JNum NaN) \<and>
     \<not> truthy (JNum NaN) \<and> \<not> truthy (JNum (Fin 0))"
proof -
  have z: "\<not> positive_number v" if "zero_or_NaN v" for v
    using that by (cases v rule: zero_or_NaN.cases) auto
  have inv: "\<not> valid_item item"
    using assms(3) z by (auto simp: valid_item_def)
  have "property item ''quantity'' \<noteq> JUndefined \<or> property item ''unit_price'' \<noteq> JUndefined"
    using assms(3) by auto
  then have def: "item \<noteq> JNull" "item \<noteq> JUndefined"
    using property_defined by blast+
  obtain bad where "validate_items (pre @ item # post) = Inr (Some bad)"
    using validate_items_rejects[OF assms(2) def inv] by blast
  moreover have "property req_body ''items'' \<noteq> JUndefined" using assms(1) by simp
  then have "destructure_items req_body = Inr (JArr (pre @ item # post))"
    using property_defined destructure_items_property assms(1) by metis
  ultimately have "create_preference d64 stringify BASE_URL create req_body =
      (Inr \<lparr>status = 400, json = JObj [(''message'', JStr (msg_item @ stringify bad))]\<rparr>, [])"
    by (simp add: create_preference_def try_block_def)
  then show ?thesis by simp
qed

lemma nan_and_zero_rejected_witness:
  "(\<exists>msg. create_preference d64_sample stringify_sample ''http://localhost:3000''
            (resolves JNull)
            (JObj [(''items'', JArr [shirt,
               JObj [(''title'', JStr ''Cap''), (''quantity'', JNum NaN),
                     (''unit_price'', JNum (Fin 5))]])]) =
          (Inr \<lparr>status = 400, json = JObj [(''message'', JStr msg)]\<rparr>, [])) \<and>
   (\<exists>msg. create_preference d64_sample stringify_sample ''http://localhost:3000''
            (resolves JNull)
            (JObj [(''items'', JArr [
               JObj [(''title'', JStr ''Cap''), (''quantity'', JNum (Fin 1)),
                     (''unit_price'', JNum (Fin 0))]])]) =
          (Inr \<lparr>status = 400, json = JObj [(''message'', JStr msg)]\<rparr>, []))"
  using nan_and_zero_rejected[of
      "JObj [(''items'', JArr [shirt,
               JObj [(''title'', JStr ''Cap''), (''quantity'', JNum NaN),
                     (''unit_price'', JNum (Fin 5))]])]"
      "[shirt]"
      "JObj [(''title'', JStr ''Cap''), (''quantity'', JNum NaN), (''unit_price'', JNum (Fin 5))]"
      "[]" d64_sample stringify_sample "''http://localhost:3000''" "resolves JNull"]
    nan_and_zero_rejected[of
      "JObj [(''items'', JArr [
               JObj [(''title'', JStr ''Cap''), (''quantity'', JNum (Fin 1)),
                     (''unit_price'', JNum (Fin 0))]])]"
      "[]"
      "JObj [(''title'', JStr ''Cap''), (''quantity'', JNum (Fin 1)), (''unit_price'', JNum (Fin 0))]"
      "[]" d64_sample stringify_sample "''http://localhost:3000''" "resolves JNull"]
  by (simp add: shirt_def double_19_999_def)

text \<open>
  Claim C9: for every item whose quantity or unit price is NaN, validation rejects the
  request with HTTP 400, and likewise for an item whose quantity or unit price is 0, by
  the check of falsiness. The loop does not reach such an item when an element before it
  is \<^verbatim>\<open>null\<close>: the request
  \<^verbatim>\<open>{"items":[null,{"title":"Cap","quantity":0,"unit_price":5}]}\<close> is answered with HTTP
  500 and the message of the engine's error, since reading \<^verbatim>\<open>item.title\<close> throws on the
  first element.
\<close>

theorem zero_item_after_null_answered_500:
  "create_preference d64 stringify BASE_URL create
     (JObj [(''items'', JArr [JNull,
        JObj [(''title'', JStr ''Cap''), (''quantity'', JNum (Fin 0)),
              (''unit_price'', JNum (Fin 5))]])]) =
     (Inr \<lparr>status = 500,
           json = JObj [(''message'',
                           JStr (''Cannot read properties of null (reading ''
                                 @ quoted ''title'' @ '')'')),
                        (''details'', JObj [])]\<rparr>, [])"
  by (simp add: create_preference_def try_block_def item_invalid_def catch_block_def
      type_error_def respond500_def quoted_def)

end
